theory Spec2Isabelle
  imports Main "HOL-Library.Word"
begin

section \<open>Python values, exceptions and the external functions\<close>

text \<open>
  The program under verification is \<^verbatim>\<open>bin/fdc_lookup.py\<close>: it reads a JSON text from
  standard input, calls the external \<^verbatim>\<open>parse_ingredient\<close> once for every element of the
  decoded value and prints the JSON encoding of the collected match lists.

  An exception is either an instance of a class derived from \<^verbatim>\<open>Exception\<close>, which the
  handler \<^verbatim>\<open>except Exception\<close> catches, or an instance of a class derived from
  \<^verbatim>\<open>BaseException\<close> only (\<^verbatim>\<open>KeyboardInterrupt\<close>, \<^verbatim>\<open>SystemExit\<close>, \<^verbatim>\<open>GeneratorExit\<close>), which
  it does not catch. The string is the class name.
\<close>

datatype pyexc = Exception string | BaseException string

datatype 'a outcome = Returns 'a | Raises pyexc

text \<open>
  The Python values the program handles. A \<^verbatim>\<open>float\<close> is carried as its binary64 bit pattern:
  the program copies floats and never computes with them. A \<^verbatim>\<open>dict\<close> is its items in
  insertion order, with distinct keys. \<open>PObject\<close> is an instance of some class with plain attributes, given
  as attribute names and values. A \<^verbatim>\<open>str\<close> is a list of characters with code points
  below 256.
\<close>

datatype pyval =
    PNone
  | PBool bool
  | PInt int
  | PFloat "64 word"
  | PStr string
  | PList "pyval list"
  | PDict "(string \<times> pyval) list"
  | PObject "(string \<times> pyval) list"

text \<open>
  The three functions the program imports. None of them is code of this repository, so
  each is a parameter of the model: \<open>parse_ingredient\<close> takes the product name and the two
  keyword arguments \<^verbatim>\<open>foundation_foods\<close> and \<^verbatim>\<open>string_units\<close>, and as the collaborator's
  contract has it, its outcome depends on its arguments only; \<open>json_loads\<close> and
  \<open>json_dumps\<close> are \<^verbatim>\<open>json.loads\<close> and \<^verbatim>\<open>json.dumps\<close>. Each either returns or raises.
\<close>

record env =
  parse_ingredient :: "pyval \<Rightarrow> bool \<Rightarrow> bool \<Rightarrow> pyval outcome"
  json_loads :: "string \<Rightarrow> pyval outcome"
  json_dumps :: "pyval \<Rightarrow> string outcome"

section \<open>Built-in operations of the language\<close>

text \<open>
  \<^verbatim>\<open>str.isspace\<close> on one character, for code points below 256: tab, line feed, vertical tab,
  form feed, carriage return, the four separators 28 to 31, space, next line (133) and
  no-break space (160).
\<close>

definition isspace :: "char \<Rightarrow> bool" where
  "isspace c = (of_char c \<in> set [9, 10, 11, 12, 13, 28, 29, 30, 31, 32, 133, 160 :: nat])"

text \<open>\<^verbatim>\<open>str.strip()\<close> removes the leading and the trailing whitespace.\<close>

definition strip :: "string \<Rightarrow> string" where
  "strip s = rev (dropWhile isspace (rev (dropWhile isspace s)))"

text \<open>
  What a \<^verbatim>\<open>for\<close> clause draws from a value: the elements of a list, the one-character
  strings of a string, the keys of a dict; \<^verbatim>\<open>TypeError\<close> for a value that is not iterable.
\<close>

fun py_iter :: "pyval \<Rightarrow> pyval list outcome" where
  "py_iter (PList xs) = Returns xs"
| "py_iter (PStr s) = Returns (map (\<lambda>c. PStr [c]) s)"
| "py_iter (PDict kvs) = Returns (map (\<lambda>kv. PStr (fst kv)) kvs)"
| "py_iter _ = Raises (Exception ''TypeError'')"

text \<open>
  Attribute access \<^verbatim>\<open>v.name\<close>, for the six names the program reads
  (\<^verbatim>\<open>foundation_foods\<close>, \<^verbatim>\<open>fdc_id\<close>, \<^verbatim>\<open>text\<close>, \<^verbatim>\<open>category\<close>, \<^verbatim>\<open>confidence\<close>, \<^verbatim>\<open>data_type\<close>): no
  built-in type has an attribute of one of these names, and an object has it when it is
  among its attributes.
\<close>

fun getattr :: "pyval \<Rightarrow> string \<Rightarrow> pyval outcome" where
  "getattr (PObject attrs) name =
     (case map_of attrs name of
        Some v \<Rightarrow> Returns v
      | None \<Rightarrow> Raises (Exception ''AttributeError''))"
| "getattr _ name = Raises (Exception ''AttributeError'')"

section \<open>The program\<close>

text \<open>
  Lines 26 to 32: the dict display, which reads the five attributes of \<^verbatim>\<open>ff\<close> in this
  order.
\<close>

definition match_dict :: "pyval \<Rightarrow> pyval outcome" where
  "match_dict ff =
     (case getattr ff ''fdc_id'' of Raises e \<Rightarrow> Raises e | Returns v1 \<Rightarrow>
     (case getattr ff ''text'' of Raises e \<Rightarrow> Raises e | Returns v2 \<Rightarrow>
     (case getattr ff ''category'' of Raises e \<Rightarrow> Raises e | Returns v3 \<Rightarrow>
     (case getattr ff ''confidence'' of Raises e \<Rightarrow> Raises e | Returns v4 \<Rightarrow>
     (case getattr ff ''data_type'' of Raises e \<Rightarrow> Raises e | Returns v5 \<Rightarrow>
        Returns (PDict [(''fdc_id'', v1), (''text'', v2), (''category'', v3),
                        (''confidence'', v4), (''data_type'', v5)]))))))"

text \<open>Lines 25 to 34: the list comprehension over the records, left to right.\<close>

fun match_dicts :: "pyval list \<Rightarrow> pyval list outcome" where
  "match_dicts [] = Returns []"
| "match_dicts (ff # ffs) =
     (case match_dict ff of Raises e \<Rightarrow> Raises e | Returns d \<Rightarrow>
     (case match_dicts ffs of Raises e \<Rightarrow> Raises e | Returns ds \<Rightarrow> Returns (d # ds)))"

text \<open>
  Calling the collaborator is an effect. The program's functions take the calls made so
  far, oldest first, and return them with their result; the only place that adds to them
  is the call itself, which records the product name it was given, whatever its outcome.
\<close>

definition call_parse_ingredient ::
  "env \<Rightarrow> pyval \<Rightarrow> bool \<Rightarrow> bool \<Rightarrow> pyval list \<Rightarrow> pyval outcome \<times> pyval list" where
  "call_parse_ingredient e name foundation_foods string_units log =
     (parse_ingredient e name foundation_foods string_units, log @ [name])"

text \<open>
  Lines 24 to 34: the body of the \<^verbatim>\<open>try\<close> statement, which calls the collaborator (line 24)
  and builds the list from what it returned (lines 25 to 34).
\<close>

definition try_body :: "env \<Rightarrow> pyval \<Rightarrow> pyval list \<Rightarrow> pyval outcome \<times> pyval list" where
  "try_body e product_name log =
     (case call_parse_ingredient e product_name True True log of
        (Raises x, log') \<Rightarrow> (Raises x, log')
      | (Returns parsed, log') \<Rightarrow>
          ((case getattr parsed ''foundation_foods'' of Raises x \<Rightarrow> Raises x | Returns ffs \<Rightarrow>
           (case py_iter ffs of Raises x \<Rightarrow> Raises x | Returns items \<Rightarrow>
           (case match_dicts items of Raises x \<Rightarrow> Raises x | Returns ds \<Rightarrow>
              Returns (PList ds)))),
           log'))"

text \<open>
  Lines 22 to 36. The handler of line 35 turns an exception derived from \<^verbatim>\<open>Exception\<close>
  into the empty list; any other exception leaves the function. The handler makes no call.
\<close>

definition lookup_foundation_foods ::
  "env \<Rightarrow> pyval \<Rightarrow> pyval list \<Rightarrow> pyval outcome \<times> pyval list" where
  "lookup_foundation_foods e product_name log =
     (case try_body e product_name log of
        (Raises (Exception m), log') \<Rightarrow> (Returns (PList []), log')
      | (r, log') \<Rightarrow> (r, log'))"

text \<open>
  Line 46: the list comprehension over the products. An exception that leaves
  \<open>lookup_foundation_foods\<close> ends it at once.
\<close>

fun lookups :: "env \<Rightarrow> pyval list \<Rightarrow> pyval list \<Rightarrow> pyval list outcome \<times> pyval list" where
  "lookups e [] log = (Returns [], log)"
| "lookups e (name # names) log =
     (case lookup_foundation_foods e name log of
        (Raises x, log') \<Rightarrow> (Raises x, log')
      | (Returns r, log') \<Rightarrow>
          (case lookups e names log' of
             (Raises x, log'') \<Rightarrow> (Raises x, log'')
           | (Returns rs, log'') \<Rightarrow> (Returns (r # rs), log'')))"

text \<open>
  One run of the program: what it wrote to standard output, the calls of
  \<open>parse_ingredient\<close> it made, and how \<^verbatim>\<open>main\<close> ended: \<open>Returns ()\<close> when it returned,
  \<open>Raises x\<close> when the exception \<open>x\<close> left it uncaught. The exit status that the interpreter
  makes of an uncaught exception is not part of the model: it is not zero, except for a
  \<^verbatim>\<open>SystemExit\<close> that carries the code 0 or \<^verbatim>\<open>None\<close>.
\<close>

record run =
  stdout :: string
  calls :: "pyval list"
  status :: "unit outcome"

text \<open>\<^verbatim>\<open>print(s)\<close> writes \<open>s\<close> and a line feed.\<close>

definition print :: "string \<Rightarrow> string" where
  "print s = s @ [CHR 0x0A]"

text \<open>Lines 39 to 47, applied to the whole text of standard input.\<close>

definition main :: "env \<Rightarrow> string \<Rightarrow> run" where
  "main e stdin =
     (let raw = strip stdin in
      if raw = [] then \<lparr>stdout = print ''[]'', calls = [], status = Returns ()\<rparr>
      else
        case json_loads e raw of
          Raises x \<Rightarrow> \<lparr>stdout = [], calls = [], status = Raises x\<rparr>
        | Returns products \<Rightarrow>
            (case py_iter products of
               Raises x \<Rightarrow> \<lparr>stdout = [], calls = [], status = Raises x\<rparr>
             | Returns names \<Rightarrow>
                 (case lookups e names [] of
                    (Raises x, log) \<Rightarrow> \<lparr>stdout = [], calls = log, status = Raises x\<rparr>
                  | (Returns results, log) \<Rightarrow>
                      (case json_dumps e (PList results) of
                         Raises x \<Rightarrow> \<lparr>stdout = [], calls = log, status = Raises x\<rparr>
                       | Returns text \<Rightarrow>
                           \<lparr>stdout = print text, calls = log, status = Returns ()\<rparr>))))"

section \<open>Notions for stating the properties\<close>

text \<open>
  A call of \<open>parse_ingredient\<close> escapes when it raises an exception that is not derived from
  \<^verbatim>\<open>Exception\<close>.
\<close>

definition escapes :: "env \<Rightarrow> pyval \<Rightarrow> bool" where
  "escapes e name =
     (case parse_ingredient e name True True of
        Raises (BaseException m) \<Rightarrow> True
      | _ \<Rightarrow> False)"

text \<open>
  What \<open>lookup_foundation_foods\<close> returns for a product name whenever it returns: the value
  of the \<^verbatim>\<open>try\<close> body, and the empty list where the body raises.
\<close>

definition match_list :: "env \<Rightarrow> pyval \<Rightarrow> pyval" where
  "match_list e name =
     (case fst (try_body e name []) of Returns v \<Rightarrow> v | Raises x \<Rightarrow> PList [])"

text \<open>
  A run printed the encoding of the value \<open>v\<close>, and nothing else, and returned.
\<close>

definition printed :: "env \<Rightarrow> run \<Rightarrow> pyval \<Rightarrow> bool" where
  "printed e r v =
     (case json_dumps e v of
        Returns text \<Rightarrow> stdout r = print text \<and> status r = Returns ()
      | Raises x \<Rightarrow> False)"

text \<open>A dict with the five keys of a match object, in the order of the dict display.\<close>

definition has_five_fields :: "pyval \<Rightarrow> bool" where
  "has_five_fields d =
     (case d of
        PDict kvs \<Rightarrow> map fst kvs = [''fdc_id'', ''text'', ''category'', ''confidence'', ''data_type'']
      | _ \<Rightarrow> False)"

section \<open>Example environments\<close>

text \<open>
  A stand-in for the collaborator, used to run the program on concrete inputs: one match
  for \<^verbatim>\<open>flour\<close> (its record has a sixth attribute, and a category of \<^verbatim>\<open>None\<close>), two
  matches for \<^verbatim>\<open>butter\<close>, the one of confidence 0.5 before the one of confidence 0.9, a
  \<^verbatim>\<open>ValueError\<close> for \<^verbatim>\<open>nonsense$$$\<close>, no match for any other string and a \<^verbatim>\<open>TypeError\<close> for a
  name that is not a string.
\<close>

definition flour_record :: pyval where
  "flour_record =
     PObject [(''text'', PStr ''flour''), (''confidence'', PFloat 0x3FECCCCCCCCCCCCD),
              (''fdc_id'', PInt 790018), (''category'', PNone),
              (''data_type'', PStr ''foundation_food''), (''url'', PStr ''https://fdc.nal.usda.gov'')]"

definition flour_match :: pyval where
  "flour_match =
     PDict [(''fdc_id'', PInt 790018), (''text'', PStr ''flour''), (''category'', PNone),
            (''confidence'', PFloat 0x3FECCCCCCCCCCCCD), (''data_type'', PStr ''foundation_food'')]"

definition butter_records :: "pyval list" where
  "butter_records =
     [PObject [(''text'', PStr ''butter''), (''confidence'', PFloat 0x3FE0000000000000),
               (''fdc_id'', PInt 2), (''category'', PStr ''Dairy''), (''data_type'', PStr ''survey'')],
      PObject [(''text'', PStr ''butter''), (''confidence'', PFloat 0x3FECCCCCCCCCCCCD),
               (''fdc_id'', PInt 1), (''category'', PStr ''Dairy''), (''data_type'', PStr ''sr_legacy'')]]"

definition butter_matches :: "pyval list" where
  "butter_matches =
     [PDict [(''fdc_id'', PInt 2), (''text'', PStr ''butter''), (''category'', PStr ''Dairy''),
             (''confidence'', PFloat 0x3FE0000000000000), (''data_type'', PStr ''survey'')],
      PDict [(''fdc_id'', PInt 1), (''text'', PStr ''butter''), (''category'', PStr ''Dairy''),
             (''confidence'', PFloat 0x3FECCCCCCCCCCCCD), (''data_type'', PStr ''sr_legacy'')]]"

definition demo_parse :: "pyval \<Rightarrow> bool \<Rightarrow> bool \<Rightarrow> pyval outcome" where
  "demo_parse name foundation_foods string_units =
     (case name of
        PStr s \<Rightarrow>
          if s = ''flour'' then Returns (PObject [(''foundation_foods'', PList [flour_record])])
          else if s = ''butter'' then Returns (PObject [(''foundation_foods'', PList butter_records)])
          else if s = ''nonsense$$$'' then Raises (Exception ''ValueError'')
          else Returns (PObject [(''foundation_foods'', PList [])])
      | _ \<Rightarrow> Raises (Exception ''TypeError''))"

text \<open>
  Stand-ins for \<^verbatim>\<open>json.loads\<close> and \<^verbatim>\<open>json.dumps\<close>: they agree with the library on the texts and
  values listed, which are the only ones the examples reach.
\<close>

definition demo_loads :: "string \<Rightarrow> pyval outcome" where
  \<open>demo_loads s =
     (if s = ''["flour", "nonsense$$$"]'' then Returns (PList [PStr ''flour'', PStr ''nonsense$$$''])
      else if s = ''["nonsense$$$", "flour"]'' then Returns (PList [PStr ''nonsense$$$'', PStr ''flour''])
      else if s = ''[]'' then Returns (PList [])
      else if s = ''"ab"'' then Returns (PStr ''ab'')
      else if s = ''{"flour": 1, "nonsense$$$": 2}'' then
        Returns (PDict [(''flour'', PInt 1), (''nonsense$$$'', PInt 2)])
      else if s = ''[1, 2]'' then Returns (PList [PInt 1, PInt 2])
      else if s = ''5'' then Returns (PInt 5)
      else Raises (Exception ''JSONDecodeError''))\<close>

definition demo_dumps :: "pyval \<Rightarrow> string outcome" where
  \<open>demo_dumps v =
     (if v = PList [] then Returns ''[]''
      else if v = PList [PList [], PList []] then Returns ''[[], []]''
      else if v = PList [PList [flour_match], PList []] then
        Returns ''[[{"fdc_id": 790018, "text": "flour", "category": null, "confidence": 0.9, "data_type": "foundation_food"}], []]''
      else if v = PList [PList [], PList [flour_match]] then
        Returns ''[[], [{"fdc_id": 790018, "text": "flour", "category": null, "confidence": 0.9, "data_type": "foundation_food"}]]''
      else Raises (Exception ''TypeError''))\<close>

definition demo_env :: env where
  "demo_env = \<lparr>parse_ingredient = demo_parse, json_loads = demo_loads, json_dumps = demo_dumps\<rparr>"

text \<open>The same collaborator, interrupted from the keyboard while it parses \<^verbatim>\<open>nonsense$$$\<close>.\<close>

definition interrupted_parse :: "pyval \<Rightarrow> bool \<Rightarrow> bool \<Rightarrow> pyval outcome" where
  "interrupted_parse name foundation_foods string_units =
     (if name = PStr ''nonsense$$$'' then Raises (BaseException ''KeyboardInterrupt'')
      else demo_parse name foundation_foods string_units)"

definition interrupted_env :: env where
  "interrupted_env =
     \<lparr>parse_ingredient = interrupted_parse, json_loads = demo_loads, json_dumps = demo_dumps\<rparr>"


text \<open>
  A collaborator whose record for \<^verbatim>\<open>salt\<close> has a confidence that is an object of a class of
  its own (a numeric type of a library, say) and not a \<^verbatim>\<open>float\<close>: \<^verbatim>\<open>json.dumps\<close> raises
  \<^verbatim>\<open>TypeError\<close> on it, as the stand-in does.
\<close>

definition salt_record :: pyval where
  "salt_record =
     PObject [(''text'', PStr ''salt''), (''confidence'', PObject [(''dtype'', PStr ''float32'')]),
              (''fdc_id'', PInt 3), (''category'', PStr ''Spices''), (''data_type'', PStr ''survey'')]"

definition opaque_parse :: "pyval \<Rightarrow> bool \<Rightarrow> bool \<Rightarrow> pyval outcome" where
  "opaque_parse name foundation_foods string_units =
     (if name = PStr ''salt'' then Returns (PObject [(''foundation_foods'', PList [salt_record])])
      else demo_parse name foundation_foods string_units)"

definition opaque_loads :: "string \<Rightarrow> pyval outcome" where
  \<open>opaque_loads s =
     (if s = ''["salt"]'' then Returns (PList [PStr ''salt'']) else demo_loads s)\<close>

definition opaque_env :: env where
  "opaque_env =
     \<lparr>parse_ingredient = opaque_parse, json_loads = opaque_loads, json_dumps = demo_dumps\<rparr>"

section \<open>Facts about the program\<close>

lemma getattr_raises: "getattr v a = Raises x \<Longrightarrow> x = Exception ''AttributeError''"
  by (cases v) (auto split: option.splits)

lemma py_iter_raises: "py_iter v = Raises x \<Longrightarrow> x = Exception ''TypeError''"
  by (cases v) auto

lemma match_dict_raises: "match_dict ff = Raises x \<Longrightarrow> x = Exception ''AttributeError''"
  unfolding match_dict_def
  by (auto split: outcome.splits dest: getattr_raises)

lemma match_dicts_raises: "match_dicts ffs = Raises x \<Longrightarrow> x = Exception ''AttributeError''"
  by (induction ffs arbitrary: x) (auto split: outcome.splits dest: match_dict_raises)

lemma try_body_unfold:
  "try_body e n log =
     ((case parse_ingredient e n True True of Raises x \<Rightarrow> Raises x | Returns parsed \<Rightarrow>
      (case getattr parsed ''foundation_foods'' of Raises x \<Rightarrow> Raises x | Returns ffs \<Rightarrow>
      (case py_iter ffs of Raises x \<Rightarrow> Raises x | Returns items \<Rightarrow>
      (case match_dicts items of Raises x \<Rightarrow> Raises x | Returns ds \<Rightarrow> Returns (PList ds))))),
      log @ [n])"
  by (simp add: try_body_def call_parse_ingredient_def split: outcome.splits)

lemma try_body_log: "try_body e n log = (fst (try_body e n []), log @ [n])"
  by (simp add: try_body_unfold)

lemma try_body_BaseException:
  "fst (try_body e n log) = Raises (BaseException m) \<longleftrightarrow>
   parse_ingredient e n True True = Raises (BaseException m)"
  unfolding try_body_unfold
  by (auto split: outcome.splits dest: getattr_raises py_iter_raises match_dicts_raises)

lemma try_body_Returns: "fst (try_body e n log) = Returns v \<Longrightarrow> \<exists>ds. v = PList ds"
  unfolding try_body_unfold by (auto split: outcome.splits)

lemma escapes_iff: "escapes e n \<longleftrightarrow> (\<exists>m. parse_ingredient e n True True = Raises (BaseException m))"
  unfolding escapes_def by (auto split: outcome.splits pyexc.splits)

lemma lookup_no_escape:
  assumes "\<not> escapes e n"
  shows "lookup_foundation_foods e n log = (Returns (match_list e n), log @ [n])"
proof (cases "fst (try_body e n [])")
  case (Returns v)
  with try_body_log [of e n log] show ?thesis
    by (simp add: lookup_foundation_foods_def match_list_def)
next
  case (Raises x)
  show ?thesis
  proof (cases x)
    case (Exception m)
    with Raises try_body_log [of e n log] show ?thesis
      by (simp add: lookup_foundation_foods_def match_list_def)
  next
    case (BaseException m)
    with Raises have "parse_ingredient e n True True = Raises (BaseException m)"
      by (simp add: try_body_BaseException)
    with assms show ?thesis by (simp add: escapes_iff)
  qed
qed

lemma lookup_escape:
  assumes "parse_ingredient e n True True = Raises (BaseException m)"
  shows "lookup_foundation_foods e n log = (Raises (BaseException m), log @ [n])"
proof -
  from assms have "fst (try_body e n []) = Raises (BaseException m)"
    by (simp add: try_body_BaseException)
  with try_body_log [of e n log] show ?thesis by (simp add: lookup_foundation_foods_def)
qed

lemma lookups_no_escape:
  "\<forall>n \<in> set names. \<not> escapes e n \<Longrightarrow>
   lookups e names log = (Returns (map (match_list e) names), log @ names)"
  by (induction names arbitrary: log) (simp_all add: lookup_no_escape)

lemma lookups_escape:
  assumes "\<forall>n \<in> set pre. \<not> escapes e n"
      and "parse_ingredient e n True True = Raises (BaseException m)"
  shows "lookups e (pre @ n # post) log = (Raises (BaseException m), log @ pre @ [n])"
  using assms(1)
  by (induction pre arbitrary: log) (simp_all add: lookup_no_escape lookup_escape [OF assms(2)])

lemma strip_Nil_iff: "strip s = [] \<longleftrightarrow> (\<forall>c \<in> set s. isspace c)"
proof
  assume "strip s = []"
  then have a: "\<forall>c \<in> set (dropWhile isspace s). isspace c"
    by (simp add: strip_def)
  have "dropWhile isspace s = []"
  proof (rule ccontr)
    assume n: "dropWhile isspace s \<noteq> []"
    then have "\<not> isspace (hd (dropWhile isspace s))" by (rule hd_dropWhile)
    moreover from n have "hd (dropWhile isspace s) \<in> set (dropWhile isspace s)" by simp
    ultimately show False using a by blast
  qed
  then show "\<forall>c \<in> set s. isspace c" by simp
next
  assume "\<forall>c \<in> set s. isspace c"
  then show "strip s = []" by (auto simp: strip_def dest: set_dropWhileD)
qed

lemma main_blank:
  "strip stdin = [] \<Longrightarrow> main e stdin = \<lparr>stdout = print ''[]'', calls = [], status = Returns ()\<rparr>"
  by (simp add: main_def)

lemma main_undecodable:
  "strip stdin \<noteq> [] \<Longrightarrow> json_loads e (strip stdin) = Raises x \<Longrightarrow>
   main e stdin = \<lparr>stdout = [], calls = [], status = Raises x\<rparr>"
  by (simp add: main_def)

lemma main_not_iterable:
  "strip stdin \<noteq> [] \<Longrightarrow> json_loads e (strip stdin) = Returns v \<Longrightarrow> py_iter v = Raises x \<Longrightarrow>
   main e stdin = \<lparr>stdout = [], calls = [], status = Raises x\<rparr>"
  by (simp add: main_def)

lemma main_escape:
  assumes "strip stdin \<noteq> []" and "json_loads e (strip stdin) = Returns v"
      and "py_iter v = Returns (pre @ n # post)"
      and "\<forall>y \<in> set pre. \<not> escapes e y"
      and "parse_ingredient e n True True = Raises (BaseException m)"
  shows "main e stdin = \<lparr>stdout = [], calls = pre @ [n], status = Raises (BaseException m)\<rparr>"
  using assms(1-3) by (simp add: main_def lookups_escape [OF assms(4,5)])

lemma main_encoder_raises:
  assumes "strip stdin \<noteq> []" and "json_loads e (strip stdin) = Returns v"
      and "py_iter v = Returns names"
      and "\<forall>n \<in> set names. \<not> escapes e n"
      and "json_dumps e (PList (map (match_list e) names)) = Raises x"
  shows "main e stdin = \<lparr>stdout = [], calls = names, status = Raises x\<rparr>"
  using assms(1-3,5) by (simp add: main_def lookups_no_escape [OF assms(4)])

lemma main_completes:
  assumes "strip stdin \<noteq> []" and "json_loads e (strip stdin) = Returns v"
      and "py_iter v = Returns names"
      and "\<forall>n \<in> set names. \<not> escapes e n"
      and "json_dumps e (PList (map (match_list e) names)) = Returns text"
  shows "main e stdin = \<lparr>stdout = print text, calls = names, status = Returns ()\<rparr>"
  using assms(1-3,5) by (simp add: main_def lookups_no_escape [OF assms(4)])

lemma first_escape:
  assumes "\<exists>n \<in> set names. escapes e n"
  obtains pre n post m where "names = pre @ n # post" and "\<forall>y \<in> set pre. \<not> escapes e y"
    and "parse_ingredient e n True True = Raises (BaseException m)"
proof -
  from assms obtain pre n post where d: "names = pre @ n # post" "escapes e n" "\<forall>x \<in> set pre. \<not> escapes e x"
    by (auto simp: split_list_first_prop_iff)
  from d(2) obtain m where "parse_ingredient e n True True = Raises (BaseException m)"
    by (auto simp: escapes_iff)
  with d that show thesis by blast
qed

lemma main_returned:
  assumes "strip stdin \<noteq> []" and "json_loads e (strip stdin) = Returns v"
      and "py_iter v = Returns names"
      and "status (main e stdin) = Returns ()"
  shows "(\<forall>n \<in> set names. \<not> escapes e n) \<and>
         (\<exists>text. json_dumps e (PList (map (match_list e) names)) = Returns text \<and>
                 main e stdin = \<lparr>stdout = print text, calls = names, status = Returns ()\<rparr>)"
proof -
  have ne: "\<forall>n \<in> set names. \<not> escapes e n"
  proof (rule ccontr)
    assume "\<not> (\<forall>n \<in> set names. \<not> escapes e n)"
    then have "\<exists>n \<in> set names. escapes e n" by simp
    then obtain pre n post m where "names = pre @ n # post" "\<forall>y \<in> set pre. \<not> escapes e y"
      "parse_ingredient e n True True = Raises (BaseException m)" by (rule first_escape)
    with assms(1-3) have "main e stdin = \<lparr>stdout = [], calls = pre @ [n], status = Raises (BaseException m)\<rparr>"
      by (simp add: main_escape)
    with assms(4) show False by simp
  qed
  show ?thesis
  proof (cases "json_dumps e (PList (map (match_list e) names))")
    case (Returns t)
    with assms(1-3) ne show ?thesis by (simp add: main_completes)
  next
    case (Raises x)
    with assms(1-3) ne have "main e stdin = \<lparr>stdout = [], calls = names, status = Raises x\<rparr>"
      by (simp add: main_encoder_raises)
    with assms(4) show ?thesis by simp
  qed
qed


lemmas demo_defs = demo_env_def demo_parse_def demo_loads_def demo_dumps_def flour_record_def
  flour_match_def butter_records_def butter_matches_def interrupted_env_def interrupted_parse_def
  salt_record_def opaque_parse_def opaque_loads_def opaque_env_def

lemma match_dict_five: "match_dict ff = Returns d \<Longrightarrow> has_five_fields d"
  unfolding match_dict_def has_five_fields_def by (auto split: outcome.splits)

lemma match_dicts_five: "match_dicts ffs = Returns ds \<Longrightarrow> list_all has_five_fields ds"
  by (induction ffs arbitrary: ds) (auto split: outcome.splits dest: match_dict_five)

lemma match_list_five: "\<exists>ds. match_list e name = PList ds \<and> list_all has_five_fields ds"
  unfolding match_list_def try_body_unfold
  by (auto split: outcome.splits dest: match_dicts_five)

lemma main_returned_any:
  assumes "strip stdin \<noteq> []" and "status (main e stdin) = Returns ()"
  obtains v names t where "json_loads e (strip stdin) = Returns v" and "py_iter v = Returns names"
    and "\<forall>n \<in> set names. \<not> escapes e n"
    and "json_dumps e (PList (map (match_list e) names)) = Returns t"
    and "main e stdin = \<lparr>stdout = print t, calls = names, status = Returns ()\<rparr>"
proof (cases "json_loads e (strip stdin)")
  case (Raises x)
  with assms show thesis by (simp add: main_undecodable)
next
  case (Returns v)
  show thesis
  proof (cases "py_iter v")
    case (Raises x)
    with assms Returns show thesis by (simp add: main_not_iterable)
  next
    case names: (Returns names)
    from main_returned [OF assms(1) Returns names assms(2)] Returns names that
    show thesis by blast
  qed
qed

lemma printed_run:
  "json_dumps e v = Returns t \<Longrightarrow> printed e \<lparr>stdout = print t, calls = c, status = Returns ()\<rparr> v"
  by (simp add: printed_def)

lemma demo_strip: \<open>strip ''["flour", "nonsense$$$"]'' = ''["flour", "nonsense$$$"]''\<close>
  by (simp add: strip_def isspace_def)

lemma demo_run:
  \<open>main demo_env ''["flour", "nonsense$$$"]'' =
     \<lparr>stdout = print ''[[{"fdc_id": 790018, "text": "flour", "category": null, "confidence": 0.9, "data_type": "foundation_food"}], []]'',
      calls = [PStr ''flour'', PStr ''nonsense$$$''], status = Returns ()\<rparr>\<close>
  by (simp add: main_def strip_def isspace_def demo_defs lookup_foundation_foods_def
      try_body_unfold match_dict_def)

lemma match_dict_Returns:
  assumes "getattr ff ''fdc_id'' = Returns v1" and "getattr ff ''text'' = Returns v2"
      and "getattr ff ''category'' = Returns v3" and "getattr ff ''confidence'' = Returns v4"
      and "getattr ff ''data_type'' = Returns v5"
  shows "match_dict ff =
           Returns (PDict [(''fdc_id'', v1), (''text'', v2), (''category'', v3),
                           (''confidence'', v4), (''data_type'', v5)])"
  using assms by (simp add: match_dict_def)

lemma match_dicts_complete:
  assumes "\<forall>ff \<in> set records.
             \<forall>a \<in> set [''fdc_id'', ''text'', ''category'', ''confidence'', ''data_type''].
               \<exists>v. getattr ff a = Returns v"
  shows "\<exists>ds. match_dicts records = Returns ds \<and> length ds = length records \<and>
           (\<forall>j < length records. match_dict (records ! j) = Returns (ds ! j))"
  using assms
proof (induction records)
  case Nil
  then show ?case by simp
next
  case (Cons ff records)
  from Cons.prems obtain v1 v2 v3 v4 v5 where g:
    "getattr ff ''fdc_id'' = Returns v1" "getattr ff ''text'' = Returns v2"
    "getattr ff ''category'' = Returns v3" "getattr ff ''confidence'' = Returns v4"
    "getattr ff ''data_type'' = Returns v5"
    by auto
  from Cons obtain ds where ds: "match_dicts records = Returns ds" "length ds = length records"
    "\<forall>j < length records. match_dict (records ! j) = Returns (ds ! j)"
    by auto
  let ?d = "PDict [(''fdc_id'', v1), (''text'', v2), (''category'', v3),
                   (''confidence'', v4), (''data_type'', v5)]"
  have d: "match_dict ff = Returns ?d" using g by (rule match_dict_Returns)
  then have "match_dicts (ff # records) = Returns (?d # ds)"
    using ds(1) by simp
  moreover have "\<forall>j < length (ff # records). match_dict ((ff # records) ! j) = Returns ((?d # ds) ! j)"
    using d ds(3) by (auto simp: nth_Cons split: nat.splits)
  ultimately show ?case using ds(2) by auto
qed

lemma match_dict_copies:
  assumes "match_dict ff = Returns d"
  shows "\<exists>v1 v2 v3 v4 v5.
           getattr ff ''fdc_id'' = Returns v1 \<and> getattr ff ''text'' = Returns v2 \<and>
           getattr ff ''category'' = Returns v3 \<and> getattr ff ''confidence'' = Returns v4 \<and>
           getattr ff ''data_type'' = Returns v5 \<and>
           d = PDict [(''fdc_id'', v1), (''text'', v2), (''category'', v3),
                      (''confidence'', v4), (''data_type'', v5)]"
  using assms unfolding match_dict_def by (auto split: outcome.splits)

lemma main_decoded_cases:
  assumes "strip stdin \<noteq> []" and "json_loads e (strip stdin) = Returns v"
      and "py_iter v = Returns names"
  obtains (escape) pre n post m where "names = pre @ n # post" and "\<forall>y \<in> set pre. \<not> escapes e y"
      and "parse_ingredient e n True True = Raises (BaseException m)"
      and "main e stdin = \<lparr>stdout = [], calls = pre @ [n], status = Raises (BaseException m)\<rparr>"
    | (encoder) x where "\<forall>n \<in> set names. \<not> escapes e n"
      and "json_dumps e (PList (map (match_list e) names)) = Raises x"
      and "main e stdin = \<lparr>stdout = [], calls = names, status = Raises x\<rparr>"
    | (returned) t where "\<forall>n \<in> set names. \<not> escapes e n"
      and "json_dumps e (PList (map (match_list e) names)) = Returns t"
      and "main e stdin = \<lparr>stdout = print t, calls = names, status = Returns ()\<rparr>"
proof (cases "\<exists>n \<in> set names. escapes e n")
  case True
  then obtain pre n post m where d: "names = pre @ n # post" "\<forall>y \<in> set pre. \<not> escapes e y"
    "parse_ingredient e n True True = Raises (BaseException m)" by (rule first_escape)
  from assms(1,2) assms(3) [unfolded d(1)] d(2,3)
  have "main e stdin = \<lparr>stdout = [], calls = pre @ [n], status = Raises (BaseException m)\<rparr>"
    by (rule main_escape)
  with d show thesis by (rule escape)
next
  case False
  then have ne: "\<forall>n \<in> set names. \<not> escapes e n" by simp
  show thesis
  proof (cases "json_dumps e (PList (map (match_list e) names))")
    case (Returns t)
    from ne Returns main_completes [OF assms ne Returns] show thesis by (rule returned)
  next
    case (Raises x)
    from ne Raises main_encoder_raises [OF assms ne Raises] show thesis by (rule encoder)
  qed
qed

lemma lookup_caught:
  assumes "parse_ingredient e n True True = Raises (Exception m)"
  shows "match_list e n = PList []"
    and "lookup_foundation_foods e n log = (Returns (PList []), log @ [n])"
proof -
  from assms have "fst (try_body e n []) = Raises (Exception m)"
    by (simp add: try_body_unfold)
  with try_body_log [of e n log] show "match_list e n = PList []"
    and "lookup_foundation_foods e n log = (Returns (PList []), log @ [n])"
    by (simp_all add: match_list_def lookup_foundation_foods_def)
qed


lemma match_list_cong:
  "parse_ingredient e' n True True = parse_ingredient e n True True \<Longrightarrow>
   match_list e' n = match_list e n"
  by (simp add: match_list_def try_body_unfold)

section \<open>The per-item lookup\<close>

text \<open>
  C10. The per-item lookup is total over item values: for every value passed as the product
  name, a string or not, and every behaviour of the collaborator other than raising an
  exception that is not derived from \<^verbatim>\<open>Exception\<close>, \<open>lookup_foundation_foods\<close> returns a
  list, after one call of the collaborator, and raises nothing.
\<close>

theorem lookup_total:
  assumes "\<forall>m. parse_ingredient e name True True \<noteq> Raises (BaseException m)"
  shows "\<exists>ds. lookup_foundation_foods e name log = (Returns (PList ds), log @ [name])"
proof -
  from assms have ne: "\<not> escapes e name" by (simp add: escapes_iff)
  have "\<exists>ds. match_list e name = PList ds"
    by (cases "fst (try_body e name [])") (auto simp: match_list_def dest: try_body_Returns)
  with lookup_no_escape [OF ne] show ?thesis by auto
qed

theorem lookup_total_witness:
  "lookup_foundation_foods demo_env (PInt 5) [] = (Returns (PList []), [PInt 5]) \<and>
   lookup_foundation_foods demo_env PNone [PInt 5] = (Returns (PList []), [PInt 5, PNone]) \<and>
   lookup_foundation_foods demo_env (PList [PList [PStr ''flour'']]) [] =
     (Returns (PList []), [PList [PList [PStr ''flour'']]]) \<and>
   lookup_foundation_foods demo_env (PStr ''flour'') [] =
     (Returns (PList [flour_match]), [PStr ''flour''])"
proof -
  have a: "\<forall>m. parse_ingredient demo_env v True True \<noteq> Raises (BaseException m)" for v
    by (simp add: demo_defs split: pyval.splits)
  from lookup_total [OF a, of "PInt 5" "[]"] lookup_total [OF a, of PNone "[PInt 5]"]
    lookup_total [OF a, of "PList [PList [PStr ''flour'']]" "[]"]
    lookup_total [OF a, of "PStr ''flour''" "[]"]
  show ?thesis
    by (simp add: lookup_foundation_foods_def try_body_unfold match_dict_def demo_defs)
qed

text \<open>
  C6. Field completeness: every match object that a lookup returns, and so every match
  object of every list the program prints, is a dict with exactly the five keys
  \<^verbatim>\<open>fdc_id\<close>, \<^verbatim>\<open>text\<close>, \<^verbatim>\<open>category\<close>, \<^verbatim>\<open>confidence\<close> and \<^verbatim>\<open>data_type\<close>, whatever their values.
\<close>

theorem field_completeness:
  "(lookup_foundation_foods e name log = (Returns v, log') \<longrightarrow>
      (\<exists>ds. v = PList ds \<and> list_all has_five_fields ds)) \<and>
   (strip stdin \<noteq> [] \<longrightarrow> status (main e stdin) = Returns () \<longrightarrow>
      (\<exists>results. printed e (main e stdin) (PList results) \<and>
         (\<forall>r \<in> set results. \<exists>ds. r = PList ds \<and> list_all has_five_fields ds)))"
proof (intro conjI impI)
  assume a: "lookup_foundation_foods e name log = (Returns v, log')"
  have "\<not> escapes e name"
  proof
    assume "escapes e name"
    then obtain m where "parse_ingredient e name True True = Raises (BaseException m)"
      by (auto simp: escapes_iff)
    from lookup_escape [OF this, of log] a show False by simp
  qed
  from lookup_no_escape [OF this, of log] a have "v = match_list e name" by simp
  with match_list_five [of e name] show "\<exists>ds. v = PList ds \<and> list_all has_five_fields ds" by simp
next
  assume s: "strip stdin \<noteq> []" and r: "status (main e stdin) = Returns ()"
  from s r obtain names t where
    d: "json_dumps e (PList (map (match_list e) names)) = Returns t"
    and m: "main e stdin = \<lparr>stdout = print t, calls = names, status = Returns ()\<rparr>"
    by (rule main_returned_any)
  have "printed e (main e stdin) (PList (map (match_list e) names))"
    unfolding m using d by (rule printed_run)
  moreover have "\<forall>r \<in> set (map (match_list e) names). \<exists>ds. r = PList ds \<and> list_all has_five_fields ds"
    using match_list_five by auto
  ultimately show "\<exists>results. printed e (main e stdin) (PList results) \<and>
         (\<forall>r \<in> set results. \<exists>ds. r = PList ds \<and> list_all has_five_fields ds)" by blast
qed

theorem field_completeness_witness:
  \<open>lookup_foundation_foods demo_env (PStr ''flour'') [] =
     (Returns (PList [flour_match]), [PStr ''flour'']) \<and>
   has_five_fields flour_match \<and>
   strip ''["flour", "nonsense$$$"]'' \<noteq> [] \<and>
   status (main demo_env ''["flour", "nonsense$$$"]'') = Returns () \<and>
   (\<exists>results. printed demo_env (main demo_env ''["flour", "nonsense$$$"]'') (PList results) \<and>
         (\<forall>r \<in> set results. \<exists>ds. r = PList ds \<and> list_all has_five_fields ds))\<close>
proof -
  have l: "lookup_foundation_foods demo_env (PStr ''flour'') [] =
             (Returns (PList [flour_match]), [PStr ''flour''])"
    by (simp add: lookup_foundation_foods_def try_body_unfold match_dict_def demo_defs)
  have s: \<open>strip ''["flour", "nonsense$$$"]'' \<noteq> []\<close> by (simp add: demo_strip)
  have r: \<open>status (main demo_env ''["flour", "nonsense$$$"]'') = Returns ()\<close>
    by (simp add: demo_run)
  from field_completeness [of demo_env "PStr ''flour''" "[]" "PList [flour_match]"
      "[PStr ''flour'']" \<open>''["flour", "nonsense$$$"]''\<close>] l s r
  show ?thesis by simp
qed

text \<open>
  C7. No re-sorting and no normalisation: when the collaborator returns an object whose
  \<^verbatim>\<open>foundation_foods\<close> yields records that each have the five attributes, the lookup returns
  one match object per record, in the order of the records, and the \<^verbatim>\<open>confidence\<close> of each
  match object, like its four other values, is the value of the record's attribute.
\<close>

theorem collaborator_order_kept:
  assumes "parse_ingredient e name True True = Returns parsed"
      and "getattr parsed ''foundation_foods'' = Returns ffs"
      and "py_iter ffs = Returns records"
      and "\<forall>ff \<in> set records.
             \<forall>a \<in> set [''fdc_id'', ''text'', ''category'', ''confidence'', ''data_type''].
               \<exists>v. getattr ff a = Returns v"
  shows "\<exists>ds. lookup_foundation_foods e name log = (Returns (PList ds), log @ [name]) \<and>
           length ds = length records \<and>
           (\<forall>j < length records.
              \<exists>v1 v2 v3 v4 v5.
                getattr (records ! j) ''fdc_id'' = Returns v1 \<and>
                getattr (records ! j) ''text'' = Returns v2 \<and>
                getattr (records ! j) ''category'' = Returns v3 \<and>
                getattr (records ! j) ''confidence'' = Returns v4 \<and>
                getattr (records ! j) ''data_type'' = Returns v5 \<and>
                ds ! j = PDict [(''fdc_id'', v1), (''text'', v2), (''category'', v3),
                                (''confidence'', v4), (''data_type'', v5)])"
proof -
  from match_dicts_complete [OF assms(4)] obtain ds where
    ds: "match_dicts records = Returns ds" "length ds = length records"
    "\<forall>j < length records. match_dict (records ! j) = Returns (ds ! j)" by blast
  from assms(1-3) ds(1) have "try_body e name log = (Returns (PList ds), log @ [name])"
    by (simp add: try_body_unfold)
  then have l: "lookup_foundation_foods e name log = (Returns (PList ds), log @ [name])"
    by (simp add: lookup_foundation_foods_def)
  have "\<exists>v1 v2 v3 v4 v5.
          getattr (records ! j) ''fdc_id'' = Returns v1 \<and>
          getattr (records ! j) ''text'' = Returns v2 \<and>
          getattr (records ! j) ''category'' = Returns v3 \<and>
          getattr (records ! j) ''confidence'' = Returns v4 \<and>
          getattr (records ! j) ''data_type'' = Returns v5 \<and>
          ds ! j = PDict [(''fdc_id'', v1), (''text'', v2), (''category'', v3),
                          (''confidence'', v4), (''data_type'', v5)]"
    if "j < length records" for j
  proof -
    from that ds(3) have "match_dict (records ! j) = Returns (ds ! j)" by simp
    then show ?thesis by (rule match_dict_copies)
  qed
  with l ds(2) show ?thesis by blast
qed

theorem collaborator_order_kept_witness:
  "parse_ingredient demo_env (PStr ''butter'') True True =
     Returns (PObject [(''foundation_foods'', PList butter_records)]) \<and>
   lookup_foundation_foods demo_env (PStr ''butter'') [] =
     (Returns (PList butter_matches), [PStr ''butter'']) \<and>
   map (\<lambda>ff. getattr ff ''confidence'') butter_records =
     [Returns (PFloat 0x3FE0000000000000), Returns (PFloat 0x3FECCCCCCCCCCCCD)]"
proof -
  have a: "parse_ingredient demo_env (PStr ''butter'') True True =
             Returns (PObject [(''foundation_foods'', PList butter_records)])"
    by (simp add: demo_env_def demo_parse_def)
  have b: "getattr (PObject [(''foundation_foods'', PList butter_records)]) ''foundation_foods'' =
             Returns (PList butter_records)"
    by simp
  have c: "py_iter (PList butter_records) = Returns butter_records" by simp
  have d: "\<forall>ff \<in> set butter_records.
             \<forall>a \<in> set [''fdc_id'', ''text'', ''category'', ''confidence'', ''data_type''].
               \<exists>v. getattr ff a = Returns v"
    by (simp add: butter_records_def)
  from collaborator_order_kept [OF a b c d, of "[]"] a show ?thesis
    by (simp add: lookup_foundation_foods_def try_body_unfold match_dict_def demo_defs)
qed

section \<open>The batch\<close>

text \<open>
  C5. Empty input: when standard input is empty or holds whitespace only, or when it
  decodes to the empty list, the program makes no call of the collaborator and prints the
  encoded empty list: the text \<^verbatim>\<open>[]\<close>, which is also what \<^verbatim>\<open>json.dumps\<close> makes of the empty list.
\<close>

theorem empty_input:
  assumes "(\<forall>c \<in> set stdin. isspace c) \<or>
           strip stdin \<noteq> [] \<and> json_loads e (strip stdin) = Returns (PList [])"
  shows "calls (main e stdin) = [] \<and>
         ((\<forall>c \<in> set stdin. isspace c) \<longrightarrow>
            main e stdin = \<lparr>stdout = print ''[]'', calls = [], status = Returns ()\<rparr>) \<and>
         (json_dumps e (PList []) = Returns ''[]'' \<longrightarrow>
            main e stdin = \<lparr>stdout = print ''[]'', calls = [], status = Returns ()\<rparr>)"
proof (cases "strip stdin = []")
  case True
  then show ?thesis by (simp add: main_blank)
next
  case False
  then have nb: "\<not> (\<forall>c \<in> set stdin. isspace c)" by (simp add: strip_Nil_iff)
  with assms have d: "json_loads e (strip stdin) = Returns (PList [])" by blast
  have i: "py_iter (PList []) = Returns []" by simp
  from False d i show ?thesis
  proof (cases rule: main_decoded_cases)
    case (escape pre n post m)
    then show ?thesis by simp
  next
    case (encoder x)
    with nb show ?thesis by auto
  next
    case (returned t)
    with nb show ?thesis by auto
  qed
qed

theorem empty_input_witness:
  \<open>main demo_env [] = \<lparr>stdout = print ''[]'', calls = [], status = Returns ()\<rparr> \<and>
   main demo_env [CHR 0x20, CHR 0x09, CHR 0x0A] =
     \<lparr>stdout = print ''[]'', calls = [], status = Returns ()\<rparr> \<and>
   json_loads demo_env (strip '' [] '') = Returns (PList []) \<and>
   main demo_env '' [] '' = \<lparr>stdout = print ''[]'', calls = [], status = Returns ()\<rparr>\<close>
proof -
  have a: "(\<forall>c \<in> set []. isspace c) \<or>
           strip [] \<noteq> [] \<and> json_loads demo_env (strip []) = Returns (PList [])"
    by simp
  have b: "(\<forall>c \<in> set [CHR 0x20, CHR 0x09, CHR 0x0A]. isspace c) \<or>
           strip [CHR 0x20, CHR 0x09, CHR 0x0A] \<noteq> [] \<and>
           json_loads demo_env (strip [CHR 0x20, CHR 0x09, CHR 0x0A]) = Returns (PList [])"
    by (simp add: isspace_def)
  have s: \<open>strip '' [] '' = ''[]''\<close> by (simp add: strip_def isspace_def)
  have c: \<open>(\<forall>c \<in> set '' [] ''. isspace c) \<or>
           strip '' [] '' \<noteq> [] \<and> json_loads demo_env (strip '' [] '') = Returns (PList [])\<close>
    by (simp add: s demo_defs)
  have d: "json_dumps demo_env (PList []) = Returns ''[]''" by (simp add: demo_defs)
  from empty_input [OF a] empty_input [OF b] empty_input [OF c] d show ?thesis
    by (simp add: s demo_defs isspace_def)
qed

text \<open>
  C2. Length invariant: when the input decodes to a list of \<open>N\<close> items, strings or not, the
  list the program prints has exactly \<open>N\<close> elements, however many lookups fail: a run that
  returns has printed the encoding of a list as long as the input, a run that does not
  return has printed nothing, and the run returns whenever no call of the collaborator
  escapes and the encoder returns.
\<close>

theorem length_invariant:
  assumes "strip stdin \<noteq> []"
      and "json_loads e (strip stdin) = Returns (PList names)"
  shows "(status (main e stdin) = Returns () \<longrightarrow>
            (\<exists>results. length results = length names \<and>
                       printed e (main e stdin) (PList results))) \<and>
         (status (main e stdin) \<noteq> Returns () \<longrightarrow> stdout (main e stdin) = []) \<and>
         ((\<forall>n \<in> set names. \<not> escapes e n) \<longrightarrow>
          (\<exists>t. json_dumps e (PList (map (match_list e) names)) = Returns t) \<longrightarrow>
            status (main e stdin) = Returns ())"
proof -
  have i: "py_iter (PList names) = Returns names" by simp
  from assms i show ?thesis
  proof (cases rule: main_decoded_cases)
    case (escape pre n post m)
    then show ?thesis by (auto simp: escapes_iff)
  next
    case (encoder x)
    then show ?thesis by simp
  next
    case (returned t)
    have "printed e (main e stdin) (PList (map (match_list e) names))"
      unfolding returned(3) using returned(2) by (rule printed_run)
    moreover have "length (map (match_list e) names) = length names" by simp
    ultimately have "\<exists>results. length results = length names \<and>
                       printed e (main e stdin) (PList results)" by blast
    with returned show ?thesis by simp
  qed
qed

theorem length_invariant_witness:
  \<open>strip ''["flour", "nonsense$$$"]'' \<noteq> [] \<and>
   json_loads demo_env (strip ''["flour", "nonsense$$$"]'') =
     Returns (PList [PStr ''flour'', PStr ''nonsense$$$'']) \<and>
   status (main demo_env ''["flour", "nonsense$$$"]'') = Returns () \<and>
   (\<exists>results. length results = 2 \<and>
      printed demo_env (main demo_env ''["flour", "nonsense$$$"]'') (PList results))\<close>
proof -
  have s: \<open>strip ''["flour", "nonsense$$$"]'' \<noteq> []\<close> by (simp add: demo_strip)
  have d: \<open>json_loads demo_env (strip ''["flour", "nonsense$$$"]'') =
             Returns (PList [PStr ''flour'', PStr ''nonsense$$$''])\<close>
    by (simp add: demo_strip demo_defs)
  have r: \<open>status (main demo_env ''["flour", "nonsense$$$"]'') = Returns ()\<close>
    by (simp add: demo_run)
  from length_invariant [OF s d] s d r show ?thesis by (simp add: numeral_2_eq_2)
qed



text \<open>
  C4. Order preservation: when the input decodes to a list, the list a returning run
  prints holds at every index the lookup result of the item at that index; and a run on
  the same items in any other order, given by a list \<open>p\<close> of the indices, prints the
  results in that order.
\<close>

theorem order_preservation:
  assumes "strip stdin \<noteq> []"
      and "json_loads e (strip stdin) = Returns (PList names)"
  shows "\<exists>results. length results = length names \<and>
           (status (main e stdin) = Returns () \<longrightarrow>
              printed e (main e stdin) (PList results) \<and>
              (\<forall>i < length names. \<forall>log.
                 lookup_foundation_foods e (names ! i) log =
                   (Returns (results ! i), log @ [names ! i]))) \<and>
           (\<forall>p stdin'.
              distinct p \<and> set p = {..<length names} \<and> strip stdin' \<noteq> [] \<and>
              json_loads e (strip stdin') = Returns (PList (map ((!) names) p)) \<and>
              status (main e stdin') = Returns () \<longrightarrow>
                printed e (main e stdin') (PList (map ((!) results) p)))"
proof -
  let ?results = "map (match_list e) names"
  have a: "printed e (main e stdin) (PList ?results) \<and>
           (\<forall>i < length names. \<forall>log.
              lookup_foundation_foods e (names ! i) log =
                (Returns (?results ! i), log @ [names ! i]))"
    if r: "status (main e stdin) = Returns ()"
  proof -
    have i: "py_iter (PList names) = Returns names" by simp
    from main_returned [OF assms i r] obtain t where
      ne: "\<forall>n \<in> set names. \<not> escapes e n"
      and d: "json_dumps e (PList ?results) = Returns t"
      and m: "main e stdin = \<lparr>stdout = print t, calls = names, status = Returns ()\<rparr>"
      by blast
    have "printed e (main e stdin) (PList ?results)"
      unfolding m using d by (rule printed_run)
    moreover have "\<forall>i < length names. \<forall>log.
              lookup_foundation_foods e (names ! i) log =
                (Returns (?results ! i), log @ [names ! i])"
      using ne by (simp add: lookup_no_escape)
    ultimately show ?thesis by blast
  qed
  have b: "printed e (main e stdin') (PList (map ((!) ?results) p))"
    if p: "set p = {..<length names}" and s: "strip stdin' \<noteq> []"
      and l: "json_loads e (strip stdin') = Returns (PList (map ((!) names) p))"
      and r: "status (main e stdin') = Returns ()"
    for p stdin'
  proof -
    have i: "py_iter (PList (map ((!) names) p)) = Returns (map ((!) names) p)" by simp
    from main_returned [OF s l i r] obtain t where
      d: "json_dumps e (PList (map (match_list e) (map ((!) names) p))) = Returns t"
      and m: "main e stdin' =
                \<lparr>stdout = print t, calls = map ((!) names) p, status = Returns ()\<rparr>"
      by blast
    have eq: "map (match_list e) (map ((!) names) p) = map ((!) ?results) p"
      using p by auto
    from d have "json_dumps e (PList (map ((!) ?results) p)) = Returns t"
      unfolding eq .
    then show ?thesis unfolding m by (rule printed_run)
  qed
  have "length ?results = length names" by simp
  with a b show ?thesis by blast
qed

theorem order_preservation_witness:
  \<open>json_loads demo_env (strip ''["flour", "nonsense$$$"]'') =
     Returns (PList [PStr ''flour'', PStr ''nonsense$$$'']) \<and>
   json_loads demo_env (strip ''["nonsense$$$", "flour"]'') =
     Returns (PList (map ((!) [PStr ''flour'', PStr ''nonsense$$$'']) [1, 0])) \<and>
   status (main demo_env ''["flour", "nonsense$$$"]'') = Returns () \<and>
   status (main demo_env ''["nonsense$$$", "flour"]'') = Returns () \<and>
   (\<exists>results. length results = 2 \<and>
      printed demo_env (main demo_env ''["flour", "nonsense$$$"]'') (PList results) \<and>
      lookup_foundation_foods demo_env (PStr ''flour'') [] = (Returns (results ! 0), [PStr ''flour'']) \<and>
      lookup_foundation_foods demo_env (PStr ''nonsense$$$'') [] =
        (Returns (results ! 1), [PStr ''nonsense$$$'']) \<and>
      printed demo_env (main demo_env ''["nonsense$$$", "flour"]'')
        (PList [results ! 1, results ! 0]))\<close>
proof -
  have s: \<open>strip ''["flour", "nonsense$$$"]'' \<noteq> []\<close> by (simp add: demo_strip)
  have d: \<open>json_loads demo_env (strip ''["flour", "nonsense$$$"]'') =
             Returns (PList [PStr ''flour'', PStr ''nonsense$$$''])\<close>
    by (simp add: demo_strip demo_defs)
  have r: \<open>status (main demo_env ''["flour", "nonsense$$$"]'') = Returns ()\<close>
    by (simp add: demo_run)
  have s': \<open>strip ''["nonsense$$$", "flour"]'' = ''["nonsense$$$", "flour"]''\<close>
    by (simp add: strip_def isspace_def)
  have d': \<open>json_loads demo_env (strip ''["nonsense$$$", "flour"]'') =
             Returns (PList (map ((!) [PStr ''flour'', PStr ''nonsense$$$'']) [1, 0]))\<close>
    by (simp add: s' demo_defs)
  have r': \<open>status (main demo_env ''["nonsense$$$", "flour"]'') = Returns ()\<close>
    by (simp add: main_def s' demo_defs lookup_foundation_foods_def try_body_unfold match_dict_def)
  have p: "distinct [1, 0 :: nat] \<and> set [1, 0 :: nat] = {..<length [PStr ''flour'', PStr ''nonsense$$$'']}"
    by auto
  from order_preservation [OF s d] obtain results where
    l: "length results = length [PStr ''flour'', PStr ''nonsense$$$'']"
    and a: \<open>status (main demo_env ''["flour", "nonsense$$$"]'') = Returns () \<longrightarrow>
              printed demo_env (main demo_env ''["flour", "nonsense$$$"]'') (PList results) \<and>
              (\<forall>i < length [PStr ''flour'', PStr ''nonsense$$$'']. \<forall>log.
                 lookup_foundation_foods demo_env ([PStr ''flour'', PStr ''nonsense$$$''] ! i) log =
                   (Returns (results ! i), log @ [[PStr ''flour'', PStr ''nonsense$$$''] ! i]))\<close>
    and b: "\<forall>p stdin'.
              distinct p \<and> set p = {..<length [PStr ''flour'', PStr ''nonsense$$$'']} \<and>
              strip stdin' \<noteq> [] \<and>
              json_loads demo_env (strip stdin') =
                Returns (PList (map ((!) [PStr ''flour'', PStr ''nonsense$$$'']) p)) \<and>
              status (main demo_env stdin') = Returns () \<longrightarrow>
                printed demo_env (main demo_env stdin') (PList (map ((!) results) p))"
    by blast
  from a r have a1: \<open>printed demo_env (main demo_env ''["flour", "nonsense$$$"]'') (PList results)\<close>
    and a2: "\<forall>i < length [PStr ''flour'', PStr ''nonsense$$$'']. \<forall>log.
                 lookup_foundation_foods demo_env ([PStr ''flour'', PStr ''nonsense$$$''] ! i) log =
                   (Returns (results ! i), log @ [[PStr ''flour'', PStr ''nonsense$$$''] ! i])"
    by blast+
  from a2 [rule_format, of 0 "[]"] have a3:
    "lookup_foundation_foods demo_env (PStr ''flour'') [] = (Returns (results ! 0), [PStr ''flour''])"
    by simp
  from a2 [rule_format, of 1 "[]"] have a4:
    "lookup_foundation_foods demo_env (PStr ''nonsense$$$'') [] =
       (Returns (results ! 1), [PStr ''nonsense$$$''])"
    by simp
  from b [rule_format, of "[1, 0]" \<open>''["nonsense$$$", "flour"]''\<close>] p d' r' have b1:
    \<open>printed demo_env (main demo_env ''["nonsense$$$", "flour"]'') (PList [results ! 1, results ! 0])\<close>
    by (simp add: s')
  from l have l2: "length results = 2" by simp
  from d d' r r' l2 a1 a3 a4 b1 show ?thesis by blast
qed

text \<open>
  C9. A decoded value that is a string or an object (a dict) is not rejected: the program
  draws the one-character strings of the string, or the keys of the object, looks each of
  them up in order, and prints one match list for each; the first lookup is made in every
  case, so the run never fails before the lookups.
\<close>

theorem non_list_iterables_accepted:
  assumes "strip stdin \<noteq> []"
      and "json_loads e (strip stdin) = Returns v"
      and "v = PStr s \<and> names = map (\<lambda>c. PStr [c]) s \<or>
           v = PDict kvs \<and> names = map (\<lambda>kv. PStr (fst kv)) kvs"
  shows "(names \<noteq> [] \<longrightarrow> (\<exists>rest. calls (main e stdin) = hd names # rest)) \<and>
         ((\<forall>n \<in> set names. \<not> escapes e n) \<longrightarrow>
            calls (main e stdin) = names \<and>
            (\<forall>t. json_dumps e (PList (map (match_list e) names)) = Returns t \<longrightarrow>
               main e stdin = \<lparr>stdout = print t, calls = names, status = Returns ()\<rparr>)) \<and>
         (status (main e stdin) = Returns () \<longrightarrow>
            (\<exists>results. length results = length names \<and>
                       printed e (main e stdin) (PList results)))"
proof -
  from assms(3) have i: "py_iter v = Returns names" by auto
  from assms(1,2) i show ?thesis
  proof (cases rule: main_decoded_cases)
    case (escape pre n post m)
    have "\<exists>rest. calls (main e stdin) = hd names # rest"
      using escape(1,4) by (cases pre) simp_all
    moreover have "\<not> (\<forall>n \<in> set names. \<not> escapes e n)"
      using escape(1,3) by (auto simp: escapes_iff)
    ultimately show ?thesis using escape(4) by auto
  next
    case (encoder x)
    have "names \<noteq> [] \<longrightarrow> (\<exists>rest. calls (main e stdin) = hd names # rest)"
      using encoder(3) by (cases names) simp_all
    with encoder show ?thesis by simp
  next
    case (returned t)
    have "names \<noteq> [] \<longrightarrow> (\<exists>rest. calls (main e stdin) = hd names # rest)"
      using returned(3) by (cases names) simp_all
    moreover have "printed e (main e stdin) (PList (map (match_list e) names))"
      unfolding returned(3) using returned(2) by (rule printed_run)
    then have "\<exists>results. length results = length names \<and>
                       printed e (main e stdin) (PList results)"
      by (intro exI [of _ "map (match_list e) names"]) simp
    ultimately show ?thesis using returned by simp
  qed
qed

theorem non_list_iterables_accepted_witness:
  \<open>json_loads demo_env (strip ''"ab"'') = Returns (PStr ''ab'') \<and>
   main demo_env ''"ab"'' =
     \<lparr>stdout = print ''[[], []]'', calls = [PStr ''a'', PStr ''b''], status = Returns ()\<rparr> \<and>
   json_loads demo_env (strip ''{"flour": 1, "nonsense$$$": 2}'') =
     Returns (PDict [(''flour'', PInt 1), (''nonsense$$$'', PInt 2)]) \<and>
   main demo_env ''{"flour": 1, "nonsense$$$": 2}'' =
     \<lparr>stdout = print ''[[{"fdc_id": 790018, "text": "flour", "category": null, "confidence": 0.9, "data_type": "foundation_food"}], []]'',
      calls = [PStr ''flour'', PStr ''nonsense$$$''], status = Returns ()\<rparr>\<close>
proof -
  have s1: \<open>strip ''"ab"'' = ''"ab"''\<close> by (simp add: strip_def isspace_def)
  have d1: \<open>json_loads demo_env (strip ''"ab"'') = Returns (PStr ''ab'')\<close>
    by (simp add: s1 demo_defs)
  have c1: "PStr ''ab'' = PStr ''ab'' \<and> [PStr ''a'', PStr ''b''] = map (\<lambda>c. PStr [c]) ''ab'' \<or>
            PStr ''ab'' = PDict [] \<and> [PStr ''a'', PStr ''b''] = map (\<lambda>kv. PStr (fst kv)) []"
    by simp
  have n1: "\<forall>n \<in> set [PStr ''a'', PStr ''b'']. \<not> escapes demo_env n"
    by (simp add: escapes_def demo_defs)
  have t1: "json_dumps demo_env (PList (map (match_list demo_env) [PStr ''a'', PStr ''b''])) =
              Returns ''[[], []]''"
    by (simp add: match_list_def try_body_unfold demo_defs)
  have s2: \<open>strip ''{"flour": 1, "nonsense$$$": 2}'' = ''{"flour": 1, "nonsense$$$": 2}''\<close>
    by (simp add: strip_def isspace_def)
  have d2: \<open>json_loads demo_env (strip ''{"flour": 1, "nonsense$$$": 2}'') =
              Returns (PDict [(''flour'', PInt 1), (''nonsense$$$'', PInt 2)])\<close>
    by (simp add: s2 demo_defs)
  have c2: "PDict [(''flour'', PInt 1), (''nonsense$$$'', PInt 2)] = PStr [] \<and>
              [PStr ''flour'', PStr ''nonsense$$$''] = map (\<lambda>c. PStr [c]) [] \<or>
            PDict [(''flour'', PInt 1), (''nonsense$$$'', PInt 2)] =
              PDict [(''flour'', PInt 1), (''nonsense$$$'', PInt 2)] \<and>
              [PStr ''flour'', PStr ''nonsense$$$''] =
                map (\<lambda>kv. PStr (fst kv)) [(''flour'', PInt 1), (''nonsense$$$'', PInt 2)]"
    by simp
  have n2: "\<forall>n \<in> set [PStr ''flour'', PStr ''nonsense$$$'']. \<not> escapes demo_env n"
    by (simp add: escapes_def demo_defs)
  have t2: \<open>json_dumps demo_env (PList (map (match_list demo_env) [PStr ''flour'', PStr ''nonsense$$$''])) =
              Returns ''[[{"fdc_id": 790018, "text": "flour", "category": null, "confidence": 0.9, "data_type": "foundation_food"}], []]''\<close>
    by (simp add: match_list_def try_body_unfold match_dict_def demo_defs)
  have ne1: \<open>strip ''"ab"'' \<noteq> []\<close> by (simp add: s1)
  have ne2: \<open>strip ''{"flour": 1, "nonsense$$$": 2}'' \<noteq> []\<close> by (simp add: s2)
  from non_list_iterables_accepted [OF ne1 d1 c1] n1 t1
  have \<open>main demo_env ''"ab"'' =
     \<lparr>stdout = print ''[[], []]'', calls = [PStr ''a'', PStr ''b''], status = Returns ()\<rparr>\<close>
    by blast
  moreover from non_list_iterables_accepted [OF ne2 d2 c2] n2 t2
  have \<open>main demo_env ''{"flour": 1, "nonsense$$$": 2}'' =
     \<lparr>stdout = print ''[[{"fdc_id": 790018, "text": "flour", "category": null, "confidence": 0.9, "data_type": "foundation_food"}], []]'',
      calls = [PStr ''flour'', PStr ''nonsense$$$''], status = Returns ()\<rparr>\<close>
    by blast
  ultimately show ?thesis using d1 d2 by blast
qed

section \<open>Failures\<close>

text \<open>
  C1, as the specification states it, for every exception: the call of the collaborator
  for the first of two items raises \<^verbatim>\<open>KeyboardInterrupt\<close>, which is not derived from
  \<^verbatim>\<open>Exception\<close> (\<^verbatim>\<open>SystemExit\<close> behaves alike). The handler does not catch it: the run ends
  there with the exception uncaught, the second item is never looked up and nothing is
  printed.
\<close>

theorem failure_isolation_counterexample:
  \<open>json_loads interrupted_env (strip ''["nonsense$$$", "flour"]'') =
     Returns (PList [PStr ''nonsense$$$'', PStr ''flour'']) \<and>
   parse_ingredient interrupted_env (PStr ''nonsense$$$'') True True =
     Raises (BaseException ''KeyboardInterrupt'') \<and>
   lookup_foundation_foods interrupted_env (PStr ''nonsense$$$'') [] =
     (Raises (BaseException ''KeyboardInterrupt''), [PStr ''nonsense$$$'']) \<and>
   main interrupted_env ''["nonsense$$$", "flour"]'' =
     \<lparr>stdout = [], calls = [PStr ''nonsense$$$''],
      status = Raises (BaseException ''KeyboardInterrupt'')\<rparr>\<close>
  by (simp add: main_def strip_def isspace_def demo_defs lookup_foundation_foods_def
      try_body_unfold match_dict_def)

text \<open>
  C1, amended. Per-item failure isolation: when the input decodes to a list and the
  collaborator raises an exception derived from \<^verbatim>\<open>Exception\<close> for item \<open>k\<close>, the lookup of
  item \<open>k\<close> returns the empty list; the result at every position depends on the
  collaborator's outcome for the item at that position only, so that it is what it would
  be had item \<open>k\<close> not failed; and if no call escapes and the encoder returns, the run
  returns and has printed the full list, whose element \<open>k\<close> is the empty list.
\<close>

theorem failure_isolation:
  assumes "strip stdin \<noteq> []"
      and "json_loads e (strip stdin) = Returns (PList names)"
      and "k < length names"
      and "parse_ingredient e (names ! k) True True = Raises (Exception m)"
  shows "(\<forall>log. lookup_foundation_foods e (names ! k) log =
                  (Returns (PList []), log @ [names ! k])) \<and>
         length (map (match_list e) names) = length names \<and>
         map (match_list e) names ! k = PList [] \<and>
         (\<forall>e' i. i < length names \<longrightarrow>
            parse_ingredient e' (names ! i) True True = parse_ingredient e (names ! i) True True \<longrightarrow>
              map (match_list e') names ! i = map (match_list e) names ! i) \<and>
         ((\<forall>n \<in> set names. \<not> escapes e n) \<longrightarrow>
          (\<forall>t. json_dumps e (PList (map (match_list e) names)) = Returns t \<longrightarrow>
             main e stdin = \<lparr>stdout = print t, calls = names, status = Returns ()\<rparr>))"
proof (intro conjI allI impI)
  fix log
  from assms(4) show "lookup_foundation_foods e (names ! k) log =
                        (Returns (PList []), log @ [names ! k])"
    by (rule lookup_caught)
next
  show "length (map (match_list e) names) = length names" by simp
next
  from assms(3,4) show "map (match_list e) names ! k = PList []"
    by (simp add: lookup_caught)
next
  fix e' :: env and i
  assume i: "i < length names"
    and p: "parse_ingredient e' (names ! i) True True = parse_ingredient e (names ! i) True True"
  from p have "match_list e' (names ! i) = match_list e (names ! i)"
    by (rule match_list_cong)
  with i show "map (match_list e') names ! i = map (match_list e) names ! i"
    by simp
next
  fix t
  assume ne: "\<forall>n \<in> set names. \<not> escapes e n"
    and d: "json_dumps e (PList (map (match_list e) names)) = Returns t"
  have i: "py_iter (PList names) = Returns names" by simp
  from assms(1,2) i ne d
  show "main e stdin = \<lparr>stdout = print t, calls = names, status = Returns ()\<rparr>"
    by (rule main_completes)
qed

theorem failure_isolation_witness:
  \<open>json_loads demo_env (strip ''["flour", "nonsense$$$"]'') =
     Returns (PList [PStr ''flour'', PStr ''nonsense$$$'']) \<and>
   parse_ingredient demo_env ([PStr ''flour'', PStr ''nonsense$$$''] ! 1) True True =
     Raises (Exception ''ValueError'') \<and>
   lookup_foundation_foods demo_env (PStr ''nonsense$$$'') [PStr ''flour''] =
     (Returns (PList []), [PStr ''flour'', PStr ''nonsense$$$'']) \<and>
   map (match_list demo_env) [PStr ''flour'', PStr ''nonsense$$$''] ! 1 = PList [] \<and>
   map (match_list interrupted_env) [PStr ''flour'', PStr ''nonsense$$$''] ! 0 =
     map (match_list demo_env) [PStr ''flour'', PStr ''nonsense$$$''] ! 0 \<and>
   main demo_env ''["flour", "nonsense$$$"]'' =
     \<lparr>stdout = print ''[[{"fdc_id": 790018, "text": "flour", "category": null, "confidence": 0.9, "data_type": "foundation_food"}], []]'',
      calls = [PStr ''flour'', PStr ''nonsense$$$''], status = Returns ()\<rparr>\<close>
proof -
  have s: \<open>strip ''["flour", "nonsense$$$"]'' \<noteq> []\<close> by (simp add: demo_strip)
  have d: \<open>json_loads demo_env (strip ''["flour", "nonsense$$$"]'') =
             Returns (PList [PStr ''flour'', PStr ''nonsense$$$''])\<close>
    by (simp add: demo_strip demo_defs)
  have k: "1 < length [PStr ''flour'', PStr ''nonsense$$$'']" by simp
  have x: "parse_ingredient demo_env ([PStr ''flour'', PStr ''nonsense$$$''] ! 1) True True =
             Raises (Exception ''ValueError'')"
    by (simp add: demo_defs)
  have n: "\<forall>n \<in> set [PStr ''flour'', PStr ''nonsense$$$'']. \<not> escapes demo_env n"
    by (simp add: escapes_def demo_defs)
  have t: \<open>json_dumps demo_env (PList (map (match_list demo_env) [PStr ''flour'', PStr ''nonsense$$$''])) =
              Returns ''[[{"fdc_id": 790018, "text": "flour", "category": null, "confidence": 0.9, "data_type": "foundation_food"}], []]''\<close>
    by (simp add: match_list_def try_body_unfold match_dict_def demo_defs)
  have c: "parse_ingredient interrupted_env ([PStr ''flour'', PStr ''nonsense$$$''] ! 0) True True =
           parse_ingredient demo_env ([PStr ''flour'', PStr ''nonsense$$$''] ! 0) True True"
    by (simp add: demo_defs)
  note f = failure_isolation [OF s d k x]
  note f1 = f [THEN conjunct1]
  note f3 = f [THEN conjunct2, THEN conjunct2, THEN conjunct1]
  note f4 = f [THEN conjunct2, THEN conjunct2, THEN conjunct2, THEN conjunct1]
  note f5 = f [THEN conjunct2, THEN conjunct2, THEN conjunct2, THEN conjunct2]
  from f1 [rule_format, of "[PStr ''flour'']"]
  have a: "lookup_foundation_foods demo_env (PStr ''nonsense$$$'') [PStr ''flour''] =
             (Returns (PList []), [PStr ''flour'', PStr ''nonsense$$$''])"
    by simp
  from f4 [rule_format, of 0 interrupted_env, OF _ c]
  have g: "map (match_list interrupted_env) [PStr ''flour'', PStr ''nonsense$$$''] ! 0 =
             map (match_list demo_env) [PStr ''flour'', PStr ''nonsense$$$''] ! 0"
    by simp
  note h = f5 [THEN mp, OF n, THEN spec, THEN mp, OF t]
  show ?thesis
    apply (intro conjI)
         apply (rule d)
        apply (rule x)
       apply (rule a)
      apply (rule f3)
     apply (rule g)
    apply (rule h)
    done
qed




end
